theory Spec2Isabelle
  imports Main
begin

section \<open>Secure client channel creation (secure\_channel\_create.c)\<close>

text \<open>
  A shallow embedding of \<^verbatim>\<open>src/core/ext/transport/chttp2/client/secure/secure_channel_create.c\<close>.
  The file orchestrates collaborators that live in other modules (channel args,
  credentials, resolver registry, channel stack, subchannel index). The four functions
  of the file are translated statement by statement; every collaborator is a small
  definition modelled from the specification, acting on an explicit world that holds
  the reference count of each object, the faults (a release of a dead object, a use
  after free) and the trace of calls in program order.
\<close>

subsection \<open>Channel arguments\<close>

text \<open>\<^verbatim>\<open>grpc_arg\<close>: a key and a tagged value (string, integer or pointer). The
  pointer of an entry may be \<^verbatim>\<open>NULL\<close>, which is \<^const>\<open>None\<close>.\<close>

datatype arg_value = ArgString string | ArgInteger int | ArgPointer "nat option"

datatype grpc_arg = Arg (arg_key: string) (arg_value: arg_value)

text \<open>\<^verbatim>\<open>grpc_channel_args\<close>: an ordered array of entries. A pointer to it that may be
  \<^verbatim>\<open>NULL\<close> is an option.\<close>

type_synonym grpc_channel_args = "grpc_arg list"

text \<open>Modelled from the spec: the key of the "security-state entry" of a configuration
  (the macro \<^verbatim>\<open>GRPC_SECURITY_CONNECTOR_ARG\<close> is declared in security\_connector.h).\<close>

definition GRPC_SECURITY_CONNECTOR_ARG :: string where
  "GRPC_SECURITY_CONNECTOR_ARG = ''grpc.security_connector''"

text \<open>Modelled from the spec: \<^verbatim>\<open>grpc_security_connector_to_arg\<close> builds the
  "back-reference entry pointing at the SecurityConnector": an entry under the key whose
  pointer is the connector.\<close>

definition grpc_security_connector_to_arg :: "nat \<Rightarrow> grpc_arg" where
  "grpc_security_connector_to_arg sc =
     Arg GRPC_SECURITY_CONNECTOR_ARG (ArgPointer (Some sc))"

text \<open>Modelled from the spec: \<^verbatim>\<open>grpc_security_connector_from_arg\<close> reads the connector
  pointer of an entry: the pointer the entry holds when it is a pointer entry under the
  key, and \<^verbatim>\<open>NULL\<close> for every other entry. An entry under the key that holds a
  \<^verbatim>\<open>NULL\<close> pointer reads as \<^verbatim>\<open>NULL\<close> too.\<close>

fun grpc_security_connector_from_arg :: "grpc_arg \<Rightarrow> nat option" where
  "grpc_security_connector_from_arg (Arg k (ArgPointer p)) =
     (if k = GRPC_SECURITY_CONNECTOR_ARG then p else None)"
| "grpc_security_connector_from_arg (Arg k (ArgString s)) = None"
| "grpc_security_connector_from_arg (Arg k (ArgInteger i)) = None"

text \<open>Modelled from the spec: \<^verbatim>\<open>grpc_find_security_connector_in_args\<close> returns the
  first connector pointer that is not \<^verbatim>\<open>NULL\<close> among the entries, or \<^verbatim>\<open>NULL\<close> when
  no entry gives one or when \<^verbatim>\<open>args\<close> is \<^verbatim>\<open>NULL\<close>. Line 128 tests this pointer, so
  a configuration "already carries" security state for the check only through an entry
  with a connector that is not \<^verbatim>\<open>NULL\<close>.\<close>

fun find_security_connector :: "grpc_channel_args \<Rightarrow> nat option" where
  "find_security_connector [] = None"
| "find_security_connector (a # as) =
     (case grpc_security_connector_from_arg a of
        Some p \<Rightarrow> Some p
      | None \<Rightarrow> find_security_connector as)"

definition grpc_find_security_connector_in_args :: "grpc_channel_args option \<Rightarrow> nat option" where
  "grpc_find_security_connector_in_args args =
     (case args of None \<Rightarrow> None | Some as \<Rightarrow> find_security_connector as)"

text \<open>A security-state entry of a configuration is a pointer entry under the key, whatever
  its pointer; it names a connector when the pointer is not \<^verbatim>\<open>NULL\<close>.\<close>

fun is_security_state_entry :: "grpc_arg \<Rightarrow> bool" where
  "is_security_state_entry (Arg k (ArgPointer p)) = (k = GRPC_SECURITY_CONNECTOR_ARG)"
| "is_security_state_entry (Arg k (ArgString s)) = False"
| "is_security_state_entry (Arg k (ArgInteger i)) = False"

definition names_connector :: "grpc_arg \<Rightarrow> bool" where
  "names_connector a = (grpc_security_connector_from_arg a \<noteq> None)"

text \<open>The number of security-state entries of a configuration, and the number of those
  that name a connector.\<close>

definition security_state_entries :: "grpc_channel_args \<Rightarrow> nat" where
  "security_state_entries as = length (filter is_security_state_entry as)"

definition connector_entries :: "grpc_channel_args \<Rightarrow> nat" where
  "connector_entries as = length (filter names_connector as)"

text \<open>The entries of a configuration pointer: none when it is \<^verbatim>\<open>NULL\<close>.\<close>

definition args_entries :: "grpc_channel_args option \<Rightarrow> grpc_channel_args" where
  "args_entries args = (case args of None \<Rightarrow> [] | Some as \<Rightarrow> as)"

text \<open>The value a configuration gives a key: the first entry with that key.\<close>

definition args_lookup :: "grpc_channel_args \<Rightarrow> string \<Rightarrow> arg_value option" where
  "args_lookup as k = map_option arg_value (find (\<lambda>a. arg_key a = k) as)"

subsection \<open>The world: reference counts, faults, trace\<close>

datatype obj =
    ObjCallerArgs
  | ObjSecurityConnector
  | ObjArgsFromConnector
  | ObjNewArgs
  | ObjFactory
  | ObjChannel
  | ObjResolver
  | ObjLameChannel
  | ObjConnector
  | ObjSubchannel

text \<open>What must never happen to an object: a reference taken on a dead object, a
  reference dropped (or a block destroyed) that is already dead, a block freed while it is
  still referenced.\<close>

datatype fault = UseAfterFree obj | DoubleRelease obj | FreeWhileReferenced obj

datatype grpc_security_status = GRPC_SECURITY_OK | GRPC_SECURITY_ERROR

datatype event =
    EvApiTrace
  | EvAssertFailed
  | EvLog string
  | EvExecCtxFinish
  | EvLameChannelCreate
  | EvCreateSecurityConnector grpc_security_status bool
  | EvCopyAndAdd grpc_channel_args
  | EvArgsDestroy obj
  | EvAlloc obj
  | EvFree obj
  | EvRef obj
  | EvUnref obj
  | EvDestroy obj
  | EvResolverCreate bool
  | EvFinishInitialization
  | EvSubchannelCreate

text \<open>\<open>refs w x\<close> is the reference count of object \<open>x\<close>; a plain allocation (a
  \<^verbatim>\<open>grpc_channel_args\<close> block) counts 1 while it is allocated. An object is live while
  its count is positive.\<close>

record world =
  refs :: "obj \<Rightarrow> nat"
  faults :: "fault list"
  trace :: "event list"

definition live :: "world \<Rightarrow> obj \<Rightarrow> bool" where
  "live w x = (0 < refs w x)"

definition emit :: "event \<Rightarrow> world \<Rightarrow> world" where
  "emit e w = w\<lparr>trace := trace w @ [e]\<rparr>"

definition raise_fault :: "fault \<Rightarrow> world \<Rightarrow> world" where
  "raise_fault f w = w\<lparr>faults := faults w @ [f]\<rparr>"

text \<open>Modelled from the spec: a new object, "created with refcount 1": \<^verbatim>\<open>gpr_malloc\<close>
  followed by \<^verbatim>\<open>gpr_ref_init(&refs, 1)\<close>, or a collaborator's constructor that returns an
  object with one reference.\<close>

definition allocate :: "obj \<Rightarrow> world \<Rightarrow> world" where
  "allocate x w = emit (EvAlloc x) (w\<lparr>refs := (refs w)(x := 1)\<rparr>)"

text \<open>Modelled from the spec: \<^verbatim>\<open>gpr_ref\<close> "increments refcount; side effect only".
  Taking a reference on a dead object is a fault.\<close>

definition gpr_ref :: "obj \<Rightarrow> world \<Rightarrow> world" where
  "gpr_ref x w =
     emit (EvRef x)
       (if refs w x = 0 then raise_fault (UseAfterFree x) w
        else w\<lparr>refs := (refs w)(x := refs w x + 1)\<rparr>)"

text \<open>Modelled from the spec: \<^verbatim>\<open>gpr_unref\<close> "decrements refcount"; the result says
  whether the count reached zero. Dropping a reference of a dead object is a fault.\<close>

definition gpr_unref :: "obj \<Rightarrow> world \<Rightarrow> bool \<times> world" where
  "gpr_unref x w =
     (if refs w x = 0 then (False, emit (EvUnref x) (raise_fault (DoubleRelease x) w))
      else (refs w x = 1, emit (EvUnref x) (w\<lparr>refs := (refs w)(x := refs w x - 1)\<rparr>)))"

text \<open>Modelled from the spec: the unref operations of the collaborators drop one
  reference and destroy the object when its "reference count must reach zero". The release
  is done inline; a release deferred to the execution context would happen before the
  call returns all the same, at \<^verbatim>\<open>grpc_exec_ctx_finish\<close>.\<close>

definition unref_and_destroy :: "obj \<Rightarrow> world \<Rightarrow> world" where
  "unref_and_destroy x w =
     (case gpr_unref x w of
        (True, w') \<Rightarrow> emit (EvDestroy x) w'
      | (False, w') \<Rightarrow> w')"

text \<open>Modelled from the spec: \<^verbatim>\<open>GRPC_SECURITY_CONNECTOR_REF\<close> takes "one extra reference on
  SecurityConnector".\<close>

definition GRPC_SECURITY_CONNECTOR_REF :: "world \<Rightarrow> world" where
  "GRPC_SECURITY_CONNECTOR_REF w = gpr_ref ObjSecurityConnector w"

text \<open>Modelled from the spec: \<^verbatim>\<open>GRPC_SECURITY_CONNECTOR_UNREF\<close> releases one reference
  of the security connector.\<close>

definition GRPC_SECURITY_CONNECTOR_UNREF :: "world \<Rightarrow> world" where
  "GRPC_SECURITY_CONNECTOR_UNREF w = unref_and_destroy ObjSecurityConnector w"

text \<open>Modelled from the spec: \<^verbatim>\<open>GRPC_CHANNEL_INTERNAL_UNREF\<close> releases the channel
  ("its reference dropped").\<close>

definition GRPC_CHANNEL_INTERNAL_UNREF :: "world \<Rightarrow> world" where
  "GRPC_CHANNEL_INTERNAL_UNREF w = unref_and_destroy ObjChannel w"

text \<open>Modelled from the spec: \<^verbatim>\<open>GRPC_RESOLVER_UNREF\<close> "releases the constructor's own
  resolver reference".\<close>

definition GRPC_RESOLVER_UNREF :: "world \<Rightarrow> world" where
  "GRPC_RESOLVER_UNREF w = unref_and_destroy ObjResolver w"

text \<open>Modelled from the spec: \<^verbatim>\<open>grpc_connector_unref\<close> releases one reference of the
  transport connector.\<close>

definition grpc_connector_unref :: "world \<Rightarrow> world" where
  "grpc_connector_unref w = unref_and_destroy ObjConnector w"

text \<open>Modelled from the spec: \<^verbatim>\<open>gpr_free\<close> "frees the capability", a block whose count
  already reached zero. Freeing a block that is still referenced is a fault.\<close>

definition gpr_free :: "obj \<Rightarrow> world \<Rightarrow> world" where
  "gpr_free x w =
     emit (EvFree x) (if refs w x = 0 then w else raise_fault (FreeWhileReferenced x) w)"

text \<open>Modelled from the spec: \<^verbatim>\<open>grpc_channel_args_destroy\<close> frees a configuration block;
  freeing a block that is not allocated is a fault.\<close>

definition grpc_channel_args_destroy :: "obj \<Rightarrow> world \<Rightarrow> world" where
  "grpc_channel_args_destroy x w =
     emit (EvArgsDestroy x)
       (if refs w x = 0 then raise_fault (DoubleRelease x) w
        else w\<lparr>refs := (refs w)(x := 0)\<rparr>)"

text \<open>Modelled from the spec: \<^verbatim>\<open>grpc_channel_args_copy_and_add\<close> returns a fresh block
  ("defensive copy semantics") holding the entries of \<open>src\<close> (none when \<open>src\<close> is
  \<^verbatim>\<open>NULL\<close>) with the added entries "appended last".\<close>

definition grpc_channel_args_copy_and_add ::
  "grpc_channel_args option \<Rightarrow> grpc_arg list \<Rightarrow> world \<Rightarrow> grpc_channel_args \<times> world" where
  "grpc_channel_args_copy_and_add src to_add w =
     (let dst = (case src of None \<Rightarrow> [] | Some as \<Rightarrow> as) @ to_add
      in (dst, emit (EvCopyAndAdd dst) (allocate ObjNewArgs w)))"

text \<open>Modelled from the spec: \<^verbatim>\<open>grpc_exec_ctx_finish\<close> ends the "execution context used
  only to schedule deferred cleanup callbacks"; the releases are modelled inline, so
  nothing is left for it to run.\<close>

definition grpc_exec_ctx_finish :: "world \<Rightarrow> world" where
  "grpc_exec_ctx_finish w = emit EvExecCtxFinish w"

subsection \<open>Credentials and the security connector\<close>

datatype security_connector_error = SecurityConnectorError

text \<open>\<^verbatim>\<open>grpc_channel_credentials\<close> is an opaque object with a virtual
  \<^verbatim>\<open>create_security_connector\<close>: given the target and the caller's configuration it fails,
  or gives the new connector and, optionally, a derived configuration. The object is its
  own decision function (\<^verbatim>\<open>NULL\<close> credentials are the function that always fails).\<close>

type_synonym grpc_channel_credentials =
  "string \<Rightarrow> grpc_channel_args option \<Rightarrow>
     security_connector_error + (nat \<times> grpc_channel_args option)"

text \<open>Modelled from the spec: \<^verbatim>\<open>grpc_channel_credentials_create_security_connector\<close>
  (section 4.1) "on success returns a connector with refcount 1 and, optionally, an
  additional configuration fragment"; on failure nothing is allocated. The result is the
  status with the two out-parameters, which the caller does not read after a failure.\<close>

definition grpc_channel_credentials_create_security_connector ::
  "grpc_channel_credentials \<Rightarrow> string \<Rightarrow> grpc_channel_args option \<Rightarrow> world \<Rightarrow>
     (grpc_security_status \<times> nat \<times> grpc_channel_args option) \<times> world" where
  "grpc_channel_credentials_create_security_connector creds target args w =
     (case creds target args of
        Inl e \<Rightarrow>
          ((GRPC_SECURITY_ERROR, 0, None),
           emit (EvCreateSecurityConnector GRPC_SECURITY_ERROR False) w)
      | Inr (sc, new_args) \<Rightarrow>
          ((GRPC_SECURITY_OK, sc, new_args),
           emit (EvCreateSecurityConnector GRPC_SECURITY_OK (new_args \<noteq> None))
             (case new_args of
                None \<Rightarrow> allocate ObjSecurityConnector w
              | Some d \<Rightarrow> allocate ObjArgsFromConnector (allocate ObjSecurityConnector w))))"

subsection \<open>Channels, resolvers and the channel stack\<close>

datatype grpc_status_code =
    GRPC_STATUS_OK
  | GRPC_STATUS_CANCELLED
  | GRPC_STATUS_UNKNOWN
  | GRPC_STATUS_INVALID_ARGUMENT
  | GRPC_STATUS_DEADLINE_EXCEEDED
  | GRPC_STATUS_NOT_FOUND
  | GRPC_STATUS_ALREADY_EXISTS
  | GRPC_STATUS_PERMISSION_DENIED
  | GRPC_STATUS_RESOURCE_EXHAUSTED
  | GRPC_STATUS_FAILED_PRECONDITION
  | GRPC_STATUS_ABORTED
  | GRPC_STATUS_OUT_OF_RANGE
  | GRPC_STATUS_UNIMPLEMENTED
  | GRPC_STATUS_INTERNAL
  | GRPC_STATUS_UNAVAILABLE
  | GRPC_STATUS_DATA_LOSS
  | GRPC_STATUS_UNAUTHENTICATED

datatype grpc_channel_stack_type = GRPC_CLIENT_CHANNEL | GRPC_CLIENT_LAME_CHANNEL

datatype grpc_client_channel_type =
    GRPC_CLIENT_CHANNEL_TYPE_REGULAR
  | GRPC_CLIENT_CHANNEL_TYPE_LOAD_BALANCING

datatype grpc_resolver = Resolver string grpc_channel_args

text \<open>\<^verbatim>\<open>client_channel_factory\<close>: the reference count \<^verbatim>\<open>refs\<close> is the count of
  \<^const>\<open>ObjFactory\<close> in the world; the record holds the pointer field.\<close>

record client_channel_factory =
  security_connector :: nat

text \<open>A live channel: its target, its own copy of the configuration, the resolvers and
  the factory wired into its stack.\<close>

record client_channel =
  cc_target :: string
  cc_args :: grpc_channel_args
  cc_stack_type :: grpc_channel_stack_type
  cc_resolvers :: "grpc_resolver list"
  cc_factories :: "client_channel_factory list"

datatype grpc_channel =
    LameChannel string grpc_status_code string
  | ClientChannel client_channel

text \<open>What the collaborators outside this file decide: which targets the resolver
  registry can resolve, how many references the channel stack keeps on the factory and on
  the resolver it is given, and how many the subchannel keeps on its connector.\<close>

record collaborators =
  resolver_registry :: "string \<Rightarrow> grpc_channel_args \<Rightarrow> bool"
  stack_factory_refs :: nat
  stack_resolver_refs :: nat
  subchannel_connector_refs :: nat

text \<open>Modelled from the spec: \<^verbatim>\<open>grpc_lame_client_channel_create\<close> (section 4.4) "always
  succeeds (pure allocation)" and carries the given status and message.\<close>

definition grpc_lame_client_channel_create ::
  "string \<Rightarrow> grpc_status_code \<Rightarrow> string \<Rightarrow> world \<Rightarrow> grpc_channel \<times> world" where
  "grpc_lame_client_channel_create target error_code error_message w =
     (LameChannel target error_code error_message,
      emit EvLameChannelCreate (allocate ObjLameChannel w))"

text \<open>Modelled from the spec: \<^verbatim>\<open>grpc_channel_create\<close>
  (\<open>ChannelStackCreate(target, config, channelKind) -> Channel\<close>) returns a channel with
  one reference.\<close>

definition grpc_channel_create ::
  "string \<Rightarrow> grpc_channel_args \<Rightarrow> grpc_channel_stack_type \<Rightarrow> world \<Rightarrow> client_channel \<times> world" where
  "grpc_channel_create target args channel_stack_type w =
     (\<lparr>cc_target = target, cc_args = args, cc_stack_type = channel_stack_type,
       cc_resolvers = [], cc_factories = []\<rparr>,
      allocate ObjChannel w)"

text \<open>Modelled from the spec: \<^verbatim>\<open>grpc_resolver_create\<close>
  (\<open>ResolverStart(target, config) -> Result<Resolver, ResolverError>\<close>) returns a resolver
  with one reference, or \<^verbatim>\<open>NULL\<close>.\<close>

definition grpc_resolver_create ::
  "collaborators \<Rightarrow> string \<Rightarrow> grpc_channel_args \<Rightarrow> world \<Rightarrow> grpc_resolver option \<times> world" where
  "grpc_resolver_create env target args w =
     (if resolver_registry env target args
      then (Some (Resolver target args), emit (EvResolverCreate True) (allocate ObjResolver w))
      else (None, emit (EvResolverCreate False) w))"

subsection \<open>The factory's reference counting (lines 56-70)\<close>

definition client_channel_factory_ref :: "world \<Rightarrow> world" where
  "client_channel_factory_ref w = gpr_ref ObjFactory w"

definition client_channel_factory_unref :: "world \<Rightarrow> world" where
  "client_channel_factory_unref w =
     (case gpr_unref ObjFactory w of
        (True, w1) \<Rightarrow> gpr_free ObjFactory (GRPC_SECURITY_CONNECTOR_UNREF w1)
      | (False, w1) \<Rightarrow> w1)"

text \<open>Modelled from the spec: \<^verbatim>\<open>grpc_client_channel_finish_initialization\<close>
  (\<open>ChannelStackFinishInit(channel, resolver, factoryCapability)\<close>) "wires the resolver and
  the factory capability into the channel's internal dispatch stack"; the stack takes its
  own references, on the factory through the vtable's \<^verbatim>\<open>ref\<close>.\<close>

definition grpc_client_channel_finish_initialization ::
  "collaborators \<Rightarrow> client_channel \<Rightarrow> grpc_resolver \<Rightarrow> client_channel_factory \<Rightarrow> world \<Rightarrow>
     client_channel \<times> world" where
  "grpc_client_channel_finish_initialization env channel resolver f w =
     (channel\<lparr>cc_resolvers := cc_resolvers channel @ [resolver],
              cc_factories := cc_factories channel @ [f]\<rparr>,
      emit EvFinishInitialization
        ((client_channel_factory_ref ^^ stack_factory_refs env)
           ((gpr_ref ObjResolver ^^ stack_resolver_refs env) w)))"

subsection \<open>Subchannels (lines 72-87)\<close>

datatype handshaker = SecurityHandshaker nat

text \<open>Modelled from the spec: \<^verbatim>\<open>grpc_channel_security_connector_add_handshakers\<close> adds
  the "security handshake step derived from the held SecurityConnector" to the manager.\<close>

definition grpc_channel_security_connector_add_handshakers ::
  "nat \<Rightarrow> handshaker list \<Rightarrow> handshaker list" where
  "grpc_channel_security_connector_add_handshakers sc handshake_mgr =
     handshake_mgr @ [SecurityHandshaker sc]"

definition add_handshakers :: "nat \<Rightarrow> handshaker list \<Rightarrow> handshaker list" where
  "add_handshakers sc handshake_mgr =
     grpc_channel_security_connector_add_handshakers sc handshake_mgr"

record grpc_subchannel_args =
  server_name :: string
  sub_args :: grpc_channel_args

text \<open>The transport connector: the server name, and the handshaker installer with its
  user data (applied when a connection is attempted).\<close>

record grpc_connector =
  conn_server_name :: string
  conn_add_handshakers :: "handshaker list \<Rightarrow> handshaker list"

record grpc_subchannel =
  sub_connector :: grpc_connector
  sub_create_args :: grpc_subchannel_args

text \<open>Modelled from the spec: \<^verbatim>\<open>grpc_chttp2_connector_create\<close>
  (\<open>ConnectorCreate(serverName, handshakerInstaller, securityConnector) -> Connector\<close>) is a
  "pure constructor, no I/O"; the connector has one reference.\<close>

definition grpc_chttp2_connector_create ::
  "string \<Rightarrow> (nat \<Rightarrow> handshaker list \<Rightarrow> handshaker list) \<Rightarrow> nat \<Rightarrow> world \<Rightarrow>
     grpc_connector \<times> world" where
  "grpc_chttp2_connector_create name create_handshakers user_data w =
     (\<lparr>conn_server_name = name, conn_add_handshakers = create_handshakers user_data\<rparr>,
      allocate ObjConnector w)"

text \<open>Modelled from the spec: \<^verbatim>\<open>grpc_subchannel_create\<close> "constructs one subchannel
  representing a single connection attempt target" and never fails; the subchannel takes
  its own references on the connector.\<close>

definition grpc_subchannel_create ::
  "collaborators \<Rightarrow> grpc_connector \<Rightarrow> grpc_subchannel_args \<Rightarrow> world \<Rightarrow>
     grpc_subchannel option \<times> world" where
  "grpc_subchannel_create env connector args w =
     (Some \<lparr>sub_connector = connector, sub_create_args = args\<rparr>,
      emit EvSubchannelCreate
        ((gpr_ref ObjConnector ^^ subchannel_connector_refs env) (allocate ObjSubchannel w)))"

definition client_channel_factory_create_subchannel ::
  "collaborators \<Rightarrow> client_channel_factory \<Rightarrow> grpc_subchannel_args \<Rightarrow> world \<Rightarrow>
     grpc_subchannel option \<times> world" where
  "client_channel_factory_create_subchannel env f args w =
     (let (connector, w1) =
            grpc_chttp2_connector_create (server_name args) add_handshakers
              (security_connector f) w;
          (s, w2) = grpc_subchannel_create env connector args w1;
          w3 = grpc_connector_unref w2
      in (s, w3))"

subsection \<open>Channel creation by the factory (lines 89-106)\<close>

definition client_channel_factory_create_channel ::
  "collaborators \<Rightarrow> client_channel_factory \<Rightarrow> string \<Rightarrow> grpc_client_channel_type \<Rightarrow>
     grpc_channel_args \<Rightarrow> world \<Rightarrow> grpc_channel option \<times> world" where
  "client_channel_factory_create_channel env f target type args w =
     (let (channel, w1) = grpc_channel_create target args GRPC_CLIENT_CHANNEL w;
          (resolver, w2) = grpc_resolver_create env target args w1
      in case resolver of
           None \<Rightarrow> (None, GRPC_CHANNEL_INTERNAL_UNREF w2)
         | Some r \<Rightarrow>
             (let (channel', w3) =
                    grpc_client_channel_finish_initialization env channel r f w2;
                  w4 = GRPC_RESOLVER_UNREF w3
              in (Some (ClientChannel channel'), w4)))"

text \<open>The vtable's \<^verbatim>\<open>unref\<close> entry, as \<^verbatim>\<open>grpc_client_channel_factory_unref\<close> dispatches it.\<close>

definition grpc_client_channel_factory_unref :: "world \<Rightarrow> world" where
  "grpc_client_channel_factory_unref w = client_channel_factory_unref w"

subsection \<open>The public entry point (lines 117-171)\<close>

text \<open>A call either aborts in \<^verbatim>\<open>GPR_ASSERT\<close> or returns a channel pointer, which may be
  \<^verbatim>\<open>NULL\<close>.\<close>

datatype outcome = Abort | Return "grpc_channel option"

text \<open>The world a call starts in: the caller's configuration is allocated when it is not
  \<^verbatim>\<open>NULL\<close>; nothing else exists.\<close>

definition initial_world :: "grpc_channel_args option \<Rightarrow> world" where
  "initial_world args =
     \<lparr>refs = (\<lambda>x. if x = ObjCallerArgs \<and> args \<noteq> None then 1 else 0),
      faults = [], trace = []\<rparr>"

definition grpc_secure_channel_create ::
  "collaborators \<Rightarrow> grpc_channel_credentials \<Rightarrow> string \<Rightarrow> grpc_channel_args option \<Rightarrow>
     nat option \<Rightarrow> outcome \<times> world" where
  "grpc_secure_channel_create env creds target args reserved =
     (let w0 = emit EvApiTrace (initial_world args) in
      if reserved \<noteq> None then (Abort, emit EvAssertFailed w0)
      else if grpc_find_security_connector_in_args args \<noteq> None then
        (let w1 = emit (EvLog ''Cannot set security context in channel args.'') w0;
             w2 = grpc_exec_ctx_finish w1;
             (lame, w3) = grpc_lame_client_channel_create target GRPC_STATUS_INTERNAL
                            ''Security connector exists in channel args.'' w2
         in (Return (Some lame), w3))
      else
        (let ((status, security_connector_ptr, new_args_from_connector), w1) =
               grpc_channel_credentials_create_security_connector creds target args w0
         in if status \<noteq> GRPC_SECURITY_OK then
              (let w2 = grpc_exec_ctx_finish w1;
                   (lame, w3) = grpc_lame_client_channel_create target GRPC_STATUS_INTERNAL
                                  ''Failed to create security connector.'' w2
               in (Return (Some lame), w3))
            else
              (let connector_arg = grpc_security_connector_to_arg security_connector_ptr;
                   (new_args, w2) =
                     grpc_channel_args_copy_and_add
                       (if new_args_from_connector \<noteq> None then new_args_from_connector
                        else args)
                       [connector_arg] w1;
                   w3 = (if new_args_from_connector \<noteq> None
                         then grpc_channel_args_destroy ObjArgsFromConnector w2 else w2);
                   w4 = allocate ObjFactory w3;
                   w5 = GRPC_SECURITY_CONNECTOR_REF w4;
                   f = \<lparr>security_connector = security_connector_ptr\<rparr>;
                   (channel, w6) =
                     client_channel_factory_create_channel env f target
                       GRPC_CLIENT_CHANNEL_TYPE_REGULAR new_args w5;
                   w7 = GRPC_SECURITY_CONNECTOR_UNREF w6;
                   w8 = grpc_channel_args_destroy ObjNewArgs w7;
                   w9 = grpc_client_channel_factory_unref w8;
                   w10 = grpc_exec_ctx_finish w9
               in (Return channel, w10))))"

subsection \<open>Notions used to state the properties\<close>

text \<open>The configuration that lines 145-149 build: a copy of the connector's configuration
  when there is one, of the caller's otherwise, and the connector's entry.\<close>

definition new_args_of ::
  "grpc_channel_args option \<Rightarrow> grpc_channel_args option \<Rightarrow> nat \<Rightarrow> grpc_channel_args" where
  "new_args_of args new_args_from_connector sc =
     (case (if new_args_from_connector \<noteq> None then new_args_from_connector else args) of
        None \<Rightarrow> [] | Some as \<Rightarrow> as) @ [grpc_security_connector_to_arg sc]"

text \<open>The configurations produced by \<^verbatim>\<open>grpc_channel_args_copy_and_add\<close> in a trace, in
  order.\<close>

fun merged_configs :: "event list \<Rightarrow> grpc_channel_args list" where
  "merged_configs [] = []"
| "merged_configs (EvCopyAndAdd m # es) = m # merged_configs es"
| "merged_configs (e # es) = merged_configs es"

text \<open>The calls of a run from its entry to the built factory (lines 121-160), and those
  of the clean-up (lines 165-169), where the factory's last reference may be the one
  dropped.\<close>

definition trace_until_factory ::
  "grpc_channel_args option \<Rightarrow> grpc_channel_args option \<Rightarrow> nat \<Rightarrow> event list" where
  "trace_until_factory args new_args_from_connector sc =
     [EvApiTrace, EvAlloc ObjSecurityConnector] @
     (if new_args_from_connector \<noteq> None then [EvAlloc ObjArgsFromConnector] else []) @
     [EvCreateSecurityConnector GRPC_SECURITY_OK (new_args_from_connector \<noteq> None),
      EvAlloc ObjNewArgs, EvCopyAndAdd (new_args_of args new_args_from_connector sc)] @
     (if new_args_from_connector \<noteq> None then [EvArgsDestroy ObjArgsFromConnector] else []) @
     [EvAlloc ObjFactory, EvRef ObjSecurityConnector]"

definition trace_of_cleanup :: "bool \<Rightarrow> event list" where
  "trace_of_cleanup last_factory_ref =
     [EvUnref ObjSecurityConnector, EvArgsDestroy ObjNewArgs, EvUnref ObjFactory] @
     (if last_factory_ref
      then [EvUnref ObjSecurityConnector, EvDestroy ObjSecurityConnector, EvFree ObjFactory]
      else []) @
     [EvExecCtxFinish]"

text \<open>The live channel that a successful run returns.\<close>

definition live_channel ::
  "string \<Rightarrow> grpc_channel_args \<Rightarrow> nat \<Rightarrow> grpc_channel" where
  "live_channel target new_args sc =
     ClientChannel
       \<lparr>cc_target = target, cc_args = new_args, cc_stack_type = GRPC_CLIENT_CHANNEL,
        cc_resolvers = [Resolver target new_args],
        cc_factories = [\<lparr>security_connector = sc\<rparr>]\<rparr>"

subsection \<open>Example inputs\<close>

text \<open>A resolver registry that knows every target but one; the channel stack and the
  subchannel keep one reference each, as the client channel does.\<close>

definition example_collaborators :: collaborators where
  "example_collaborators =
     \<lparr>resolver_registry = (\<lambda>target args. target \<noteq> ''unresolvable''),
      stack_factory_refs = 1, stack_resolver_refs = 1, subchannel_connector_refs = 1\<rparr>"

text \<open>Credentials that refuse the target \<^verbatim>\<open>insecure\<close> and give no derived
  configuration.\<close>

definition example_credentials :: grpc_channel_credentials where
  "example_credentials target args =
     (if target = ''insecure'' then Inl SecurityConnectorError else Inr (7, None))"

text \<open>Credentials that derive a configuration fragment from the target alone.\<close>

definition fragment_credentials :: grpc_channel_credentials where
  "fragment_credentials target args =
     Inr (7, Some [Arg ''grpc.primary_user_agent'' (ArgString ''derived'')])"

text \<open>Credentials whose derived configuration already names a security connector.\<close>

definition connector_naming_credentials :: grpc_channel_credentials where
  "connector_naming_credentials target args =
     Inr (7, Some [Arg GRPC_SECURITY_CONNECTOR_ARG (ArgPointer (Some 9))])"

definition example_base_config :: grpc_channel_args where
  "example_base_config =
     [Arg ''grpc.primary_user_agent'' (ArgString ''base''),
      Arg ''grpc.max_receive_message_length'' (ArgInteger 4096)]"

text \<open>A configuration that names a connector, and one whose entry under the key holds a
  \<^verbatim>\<open>NULL\<close> pointer.\<close>

definition conflicting_config :: grpc_channel_args where
  "conflicting_config = [Arg GRPC_SECURITY_CONNECTOR_ARG (ArgPointer (Some 3))]"

definition null_entry_config :: grpc_channel_args where
  "null_entry_config = [Arg GRPC_SECURITY_CONNECTOR_ARG (ArgPointer None)]"

subsection \<open>Example calls\<close>

text \<open>A call whose configuration already holds a security connector entry.\<close>

abbreviation conflicting_call :: "outcome \<times> world" where
  "conflicting_call \<equiv>
     grpc_secure_channel_create example_collaborators example_credentials
     ''example.com:443'' (Some conflicting_config) None"

text \<open>The same call with a reserved pointer.\<close>

abbreviation conflicting_call_reserved :: "outcome \<times> world" where
  "conflicting_call_reserved \<equiv>
     grpc_secure_channel_create example_collaborators example_credentials
     ''example.com:443'' (Some conflicting_config) (Some 1)"

text \<open>A call whose credentials refuse the target.\<close>

abbreviation refused_call :: "outcome \<times> world" where
  "refused_call \<equiv>
     grpc_secure_channel_create example_collaborators example_credentials
     ''insecure'' None None"

text \<open>A call whose target no resolver knows.\<close>

abbreviation unresolvable_call :: "outcome \<times> world" where
  "unresolvable_call \<equiv>
     grpc_secure_channel_create example_collaborators example_credentials
     ''unresolvable'' (Some []) None"

text \<open>The end-to-end scenario: valid credentials, a resolvable target, an empty configuration.\<close>

abbreviation example_call :: "outcome \<times> world" where
  "example_call \<equiv>
     grpc_secure_channel_create example_collaborators example_credentials
     ''example.com:443'' (Some []) None"

text \<open>The end-to-end scenario with a reserved pointer.\<close>

abbreviation example_call_reserved :: "outcome \<times> world" where
  "example_call_reserved \<equiv>
     grpc_secure_channel_create example_collaborators example_credentials
     ''example.com:443'' (Some []) (Some 1)"

text \<open>A call with a base configuration and credentials that derive a configuration.\<close>

abbreviation fragment_call :: "outcome \<times> world" where
  "fragment_call \<equiv>
     grpc_secure_channel_create example_collaborators fragment_credentials
     ''example.com:443'' (Some example_base_config) None"

text \<open>A call whose credentials derive a configuration that names a security connector.\<close>

abbreviation connector_naming_call :: "outcome \<times> world" where
  "connector_naming_call \<equiv>
     grpc_secure_channel_create example_collaborators connector_naming_credentials
     ''example.com:443'' (Some []) None"

text \<open>A call whose configuration has an entry under the key with a \<^verbatim>\<open>NULL\<close>
  pointer.\<close>

abbreviation null_entry_call :: "outcome \<times> world" where
  "null_entry_call \<equiv>
     grpc_secure_channel_create example_collaborators example_credentials
     ''example.com:443'' (Some null_entry_config) None"

text \<open>A subchannel built by a factory that holds connector 7.\<close>

abbreviation example_subchannel_call :: "grpc_subchannel option \<times> world" where
  "example_subchannel_call \<equiv>
     client_channel_factory_create_subchannel example_collaborators
     \<lparr>security_connector = 7\<rparr> \<lparr>server_name = ''example.com'', sub_args = []\<rparr>
     (initial_world None)"

section \<open>Closed forms\<close>

subsection \<open>The primitives on an explicit world\<close>

lemma emit_world:
  "emit e \<lparr>refs = r, faults = f, trace = t\<rparr> = \<lparr>refs = r, faults = f, trace = t @ [e]\<rparr>"
  by (simp add: emit_def)

lemma allocate_world:
  "allocate x \<lparr>refs = r, faults = f, trace = t\<rparr> =
     \<lparr>refs = r(x := 1), faults = f, trace = t @ [EvAlloc x]\<rparr>"
  by (simp add: allocate_def emit_def)

lemma gpr_ref_world:
  "gpr_ref x \<lparr>refs = r, faults = f, trace = t\<rparr> =
     (if r x = 0 then \<lparr>refs = r, faults = f @ [UseAfterFree x], trace = t @ [EvRef x]\<rparr>
      else \<lparr>refs = r(x := r x + 1), faults = f, trace = t @ [EvRef x]\<rparr>)"
  by (simp add: gpr_ref_def emit_def raise_fault_def)

lemma gpr_ref_funpow_world:
  "(gpr_ref x ^^ n) \<lparr>refs = r, faults = f, trace = t\<rparr> =
     (if r x = 0
      then \<lparr>refs = r, faults = f @ replicate n (UseAfterFree x),
             trace = t @ replicate n (EvRef x)\<rparr>
      else \<lparr>refs = r(x := r x + n), faults = f, trace = t @ replicate n (EvRef x)\<rparr>)"
proof (induction n)
  case 0
  show ?case by simp
next
  case (Suc n)
  show ?case
    by (simp add: Suc gpr_ref_world replicate_append_same)
qed

lemma gpr_unref_world:
  "gpr_unref x \<lparr>refs = r, faults = f, trace = t\<rparr> =
     (if r x = 0
      then (False, \<lparr>refs = r, faults = f @ [DoubleRelease x], trace = t @ [EvUnref x]\<rparr>)
      else (r x = 1, \<lparr>refs = r(x := r x - 1), faults = f, trace = t @ [EvUnref x]\<rparr>))"
  by (simp add: gpr_unref_def emit_def raise_fault_def)

lemma unref_and_destroy_world:
  "unref_and_destroy x \<lparr>refs = r, faults = f, trace = t\<rparr> =
     (if r x = 0
      then \<lparr>refs = r, faults = f @ [DoubleRelease x], trace = t @ [EvUnref x]\<rparr>
      else if r x = 1
      then \<lparr>refs = r(x := 0), faults = f, trace = t @ [EvUnref x, EvDestroy x]\<rparr>
      else \<lparr>refs = r(x := r x - 1), faults = f, trace = t @ [EvUnref x]\<rparr>)"
  by (simp add: unref_and_destroy_def gpr_unref_world emit_world)

lemma gpr_free_world:
  "gpr_free x \<lparr>refs = r, faults = f, trace = t\<rparr> =
     (if r x = 0 then \<lparr>refs = r, faults = f, trace = t @ [EvFree x]\<rparr>
      else \<lparr>refs = r, faults = f @ [FreeWhileReferenced x], trace = t @ [EvFree x]\<rparr>)"
  by (simp add: gpr_free_def emit_def raise_fault_def)

lemma grpc_channel_args_destroy_world:
  "grpc_channel_args_destroy x \<lparr>refs = r, faults = f, trace = t\<rparr> =
     (if r x = 0
      then \<lparr>refs = r, faults = f @ [DoubleRelease x], trace = t @ [EvArgsDestroy x]\<rparr>
      else \<lparr>refs = r(x := 0), faults = f, trace = t @ [EvArgsDestroy x]\<rparr>)"
  by (simp add: grpc_channel_args_destroy_def emit_def raise_fault_def)

lemmas world_simps = emit_world allocate_world gpr_ref_world gpr_ref_funpow_world
  unref_and_destroy_world gpr_free_world grpc_channel_args_destroy_world gpr_unref_world

lemmas wrapper_defs = 
  GRPC_SECURITY_CONNECTOR_REF_def GRPC_SECURITY_CONNECTOR_UNREF_def GRPC_CHANNEL_INTERNAL_UNREF_def
  GRPC_RESOLVER_UNREF_def grpc_connector_unref_def grpc_exec_ctx_finish_def
  grpc_client_channel_factory_unref_def


subsection \<open>The five paths of \<^const>\<open>grpc_secure_channel_create\<close>\<close>

lemma client_channel_factory_ref_eq: "client_channel_factory_ref = gpr_ref ObjFactory"
  by (rule ext) (simp add: client_channel_factory_ref_def)

lemmas run_defs =
  grpc_secure_channel_create_def grpc_channel_credentials_create_security_connector_def
  client_channel_factory_create_channel_def grpc_channel_create_def grpc_resolver_create_def
  grpc_client_channel_finish_initialization_def client_channel_factory_ref_eq
  client_channel_factory_unref_def grpc_lame_client_channel_create_def
  initial_world_def grpc_channel_args_copy_and_add_def

lemma run_abort:
  assumes "reserved \<noteq> None"
  shows "grpc_secure_channel_create env creds target args reserved =
    (Abort, \<lparr>refs = refs (initial_world args), faults = [],
              trace = [EvApiTrace, EvAssertFailed]\<rparr>)"
  using assms by (simp add: run_defs world_simps Let_def)

lemma run_conflict:
  assumes "reserved = None" and "grpc_find_security_connector_in_args args \<noteq> None"
  shows "grpc_secure_channel_create env creds target args reserved =
    (Return (Some (LameChannel target GRPC_STATUS_INTERNAL
                     ''Security connector exists in channel args.'')),
     \<lparr>refs = (refs (initial_world args))(ObjLameChannel := 1), faults = [],
       trace = [EvApiTrace, EvLog ''Cannot set security context in channel args.'',
                EvExecCtxFinish, EvAlloc ObjLameChannel, EvLameChannelCreate]\<rparr>)"
  using assms by (simp add: run_defs world_simps wrapper_defs Let_def)

lemma run_connector_failed:
  assumes "reserved = None" and "grpc_find_security_connector_in_args args = None"
    and "creds target args = Inl e"
  shows "grpc_secure_channel_create env creds target args reserved =
    (Return (Some (LameChannel target GRPC_STATUS_INTERNAL
                     ''Failed to create security connector.'')),
     \<lparr>refs = (refs (initial_world args))(ObjLameChannel := 1), faults = [],
       trace = [EvApiTrace, EvCreateSecurityConnector GRPC_SECURITY_ERROR False,
                EvExecCtxFinish, EvAlloc ObjLameChannel, EvLameChannelCreate]\<rparr>)"
  using assms by (simp add: run_defs world_simps wrapper_defs Let_def)

lemma run_resolver_failed:
  assumes "reserved = None" and "grpc_find_security_connector_in_args args = None"
    and "creds target args = Inr (sc, d)"
    and "\<not> resolver_registry env target (new_args_of args d sc)"
  shows "grpc_secure_channel_create env creds target args reserved =
    (Return None,
     \<lparr>refs = refs (initial_world args), faults = [],
       trace = trace_until_factory args d sc @
               [EvAlloc ObjChannel, EvResolverCreate False, EvUnref ObjChannel,
                EvDestroy ObjChannel] @ trace_of_cleanup True\<rparr>)"
proof (cases d)
  case None
  with assms show ?thesis
    by (simp add: run_defs world_simps wrapper_defs Let_def new_args_of_def
        trace_until_factory_def trace_of_cleanup_def fun_eq_iff)
next
  case (Some a)
  with assms show ?thesis
    by (simp add: run_defs world_simps wrapper_defs Let_def new_args_of_def
        trace_until_factory_def trace_of_cleanup_def fun_eq_iff)
qed

lemma run_live:
  assumes "reserved = None" and "grpc_find_security_connector_in_args args = None"
    and "creds target args = Inr (sc, d)"
    and "resolver_registry env target (new_args_of args d sc)"
  shows "grpc_secure_channel_create env creds target args reserved =
    (Return (Some (live_channel target (new_args_of args d sc) sc)),
     \<lparr>refs = (refs (initial_world args))
               (ObjChannel := 1, ObjResolver := stack_resolver_refs env,
                ObjFactory := stack_factory_refs env,
                ObjSecurityConnector := (if stack_factory_refs env = 0 then 0 else 1)),
       faults = [],
       trace = trace_until_factory args d sc @
               [EvAlloc ObjChannel, EvAlloc ObjResolver, EvResolverCreate True] @
               replicate (stack_resolver_refs env) (EvRef ObjResolver) @
               replicate (stack_factory_refs env) (EvRef ObjFactory) @
               [EvFinishInitialization, EvUnref ObjResolver] @
               (if stack_resolver_refs env = 0 then [EvDestroy ObjResolver] else []) @
               trace_of_cleanup (stack_factory_refs env = 0)\<rparr>)"
proof (cases d)
  case None
  with assms show ?thesis
    by (simp add: run_defs world_simps wrapper_defs Let_def new_args_of_def live_channel_def
        trace_until_factory_def trace_of_cleanup_def fun_eq_iff)
next
  case (Some a)
  with assms show ?thesis
    by (simp add: run_defs world_simps wrapper_defs Let_def new_args_of_def live_channel_def
        trace_until_factory_def trace_of_cleanup_def fun_eq_iff)
qed

subsection \<open>Case analysis and auxiliary facts\<close>

lemma run_cases [case_names abort conflict connector_failed resolver_failed live]:
  obtains
    "reserved \<noteq> None"
  | "reserved = None" and "grpc_find_security_connector_in_args args \<noteq> None"
  | e where "reserved = None" and "grpc_find_security_connector_in_args args = None"
      and "creds target args = Inl e"
  | sc d where "reserved = None" and "grpc_find_security_connector_in_args args = None"
      and "creds target args = Inr (sc, d)"
      and "\<not> resolver_registry env target (new_args_of args d sc)"
  | sc d where "reserved = None" and "grpc_find_security_connector_in_args args = None"
      and "creds target args = Inr (sc, d)"
      and "resolver_registry env target (new_args_of args d sc)"
proof (cases "creds target args")
  case (Inl e)
  then show ?thesis using that(1,2,3) by blast
next
  case (Inr p)
  then obtain sc d where "creds target args = Inr (sc, d)" by (cases p) simp
  then show ?thesis using that(1,2,4,5) by blast
qed

lemmas trace_defs = trace_until_factory_def trace_of_cleanup_def

lemma merged_configs_append:
  "merged_configs (xs @ ys) = merged_configs xs @ merged_configs ys"
  by (induction xs rule: merged_configs.induct) simp_all

lemma merged_configs_replicate_ref: "merged_configs (replicate n (EvRef x)) = []"
  by (induction n) simp_all

lemma names_connector_is_entry: "names_connector a \<Longrightarrow> is_security_state_entry a"
  by (cases a rule: is_security_state_entry.cases)
    (simp_all add: names_connector_def split: if_splits)

lemma connector_entries_le: "connector_entries as \<le> security_state_entries as"
proof (induction as)
  case Nil
  show ?case by (simp add: connector_entries_def security_state_entries_def)
next
  case (Cons a as)
  then show ?case
    using names_connector_is_entry [of a]
    by (auto simp: connector_entries_def security_state_entries_def)
qed

lemma find_security_connector_none_iff:
  "(find_security_connector as = None) = (connector_entries as = 0)"
  by (induction as)
    (auto simp: connector_entries_def names_connector_def split: option.splits)

lemma find_security_connector_found_iff:
  "(find_security_connector as \<noteq> None) =
   (\<exists>p. Arg GRPC_SECURITY_CONNECTOR_ARG (ArgPointer (Some p)) \<in> set as)"
proof (induction as)
  case Nil
  show ?case by simp
next
  case (Cons a as)
  show ?case
  proof (cases a rule: grpc_security_connector_from_arg.cases)
    case (1 k p)
    with Cons show ?thesis by (cases p) (auto split: option.splits)
  next
    case (2 k s)
    with Cons show ?thesis by auto
  next
    case (3 k i)
    with Cons show ?thesis by auto
  qed
qed

lemma security_state_free_not_found:
  "security_state_entries (args_entries args) = 0 \<Longrightarrow>
     grpc_find_security_connector_in_args args = None"
  using connector_entries_le [of "args_entries args"]
  by (cases args)
    (simp_all add: grpc_find_security_connector_in_args_def args_entries_def
      find_security_connector_none_iff)

lemma security_state_entries_snoc:
  "security_state_entries (as @ [grpc_security_connector_to_arg sc]) =
     security_state_entries as + 1"
  by (simp add: security_state_entries_def grpc_security_connector_to_arg_def)

lemma connector_entries_Nil: "connector_entries [] = 0"
  by (simp add: connector_entries_def)

lemma connector_entries_snoc:
  "connector_entries (as @ [grpc_security_connector_to_arg sc]) = connector_entries as + 1"
  by (simp add: connector_entries_def names_connector_def grpc_security_connector_to_arg_def)

lemma count_list_replicate_other: "y \<noteq> x \<Longrightarrow> count_list (replicate n x) y = 0"
  by (induction n) simp_all

lemma trace_until_factory_Some:
  "trace_until_factory args (Some a) sc =
     [EvApiTrace, EvAlloc ObjSecurityConnector, EvAlloc ObjArgsFromConnector,
      EvCreateSecurityConnector GRPC_SECURITY_OK True, EvAlloc ObjNewArgs] @
     [EvCopyAndAdd (new_args_of args (Some a) sc), EvArgsDestroy ObjArgsFromConnector] @
     [EvAlloc ObjFactory, EvRef ObjSecurityConnector]"
  by (simp add: trace_until_factory_def)

lemma initial_refs:
  "refs (initial_world args) x = (if x = ObjCallerArgs \<and> args \<noteq> None then 1 else 0)"
  by (simp add: initial_world_def)

lemma create_subchannel_closed:
  "client_channel_factory_create_subchannel env f args
       \<lparr>refs = r, faults = fs, trace = t\<rparr> =
     (Some \<lparr>sub_connector =
              \<lparr>conn_server_name = server_name args,
               conn_add_handshakers = add_handshakers (security_connector f)\<rparr>,
            sub_create_args = args\<rparr>,
      \<lparr>refs = r(ObjSubchannel := 1, ObjConnector := subchannel_connector_refs env),
       faults = fs,
       trace = t @ [EvAlloc ObjConnector, EvAlloc ObjSubchannel] @
               replicate (subchannel_connector_refs env) (EvRef ObjConnector) @
               [EvSubchannelCreate, EvUnref ObjConnector] @
               (if subchannel_connector_refs env = 0 then [EvDestroy ObjConnector] else [])\<rparr>)"
  by (simp add: client_channel_factory_create_subchannel_def grpc_chttp2_connector_create_def
      grpc_subchannel_create_def grpc_connector_unref_def world_simps fun_eq_iff)

lemmas example_defs = example_collaborators_def example_credentials_def
  fragment_credentials_def connector_naming_credentials_def example_base_config_def
  conflicting_config_def null_entry_config_def grpc_find_security_connector_in_args_def
  new_args_of_def args_entries_def

lemma conflicting_config_found:
  "grpc_find_security_connector_in_args (Some conflicting_config) \<noteq> None"
  by (simp add: example_defs)

lemma example_run_conflict:
  "conflicting_call =
    (Return (Some (LameChannel ''example.com:443'' GRPC_STATUS_INTERNAL
                     ''Security connector exists in channel args.'')),
     \<lparr>refs = (refs (initial_world (Some conflicting_config)))(ObjLameChannel := 1),
       faults = [],
       trace = [EvApiTrace, EvLog ''Cannot set security context in channel args.'',
                EvExecCtxFinish, EvAlloc ObjLameChannel, EvLameChannelCreate]\<rparr>)"
  by (rule run_conflict) (simp_all add: example_defs)

lemma example_run_connector_failed:
  "refused_call =
    (Return (Some (LameChannel ''insecure'' GRPC_STATUS_INTERNAL
                     ''Failed to create security connector.'')),
     \<lparr>refs = (refs (initial_world None))(ObjLameChannel := 1), faults = [],
       trace = [EvApiTrace, EvCreateSecurityConnector GRPC_SECURITY_ERROR False,
                EvExecCtxFinish, EvAlloc ObjLameChannel, EvLameChannelCreate]\<rparr>)"
  by (rule run_connector_failed [where e = SecurityConnectorError])
    (simp_all add: example_defs)

lemma example_run_resolver_failed:
  "unresolvable_call =
    (Return None,
     \<lparr>refs = refs (initial_world (Some [])), faults = [],
       trace = trace_until_factory (Some []) None 7 @
               [EvAlloc ObjChannel, EvResolverCreate False, EvUnref ObjChannel,
                EvDestroy ObjChannel] @ trace_of_cleanup True\<rparr>)"
  by (rule run_resolver_failed) (simp_all add: example_defs)

lemma example_run_live:
  "example_call =
    (Return (Some (live_channel ''example.com:443'' [grpc_security_connector_to_arg 7] 7)),
     \<lparr>refs = (refs (initial_world (Some [])))
               (ObjChannel := 1, ObjResolver := 1, ObjFactory := 1,
                ObjSecurityConnector := 1),
       faults = [],
       trace = trace_until_factory (Some []) None 7 @
               [EvAlloc ObjChannel, EvAlloc ObjResolver, EvResolverCreate True,
                EvRef ObjResolver, EvRef ObjFactory,
                EvFinishInitialization, EvUnref ObjResolver] @
               trace_of_cleanup False\<rparr>)"
  using run_live [where env = example_collaborators and creds = example_credentials
      and target = "''example.com:443''" and args = "Some []" and reserved = None and sc = 7
      and d = None]
  by (simp add: example_defs)

lemma example_run_fragment:
  "fragment_call =
    (Return (Some (live_channel ''example.com:443''
                     [Arg ''grpc.primary_user_agent'' (ArgString ''derived''),
                      grpc_security_connector_to_arg 7] 7)),
     \<lparr>refs = (refs (initial_world (Some example_base_config)))
               (ObjChannel := 1, ObjResolver := 1, ObjFactory := 1,
                ObjSecurityConnector := 1),
       faults = [],
       trace = trace_until_factory (Some example_base_config)
                 (Some [Arg ''grpc.primary_user_agent'' (ArgString ''derived'')]) 7 @
               [EvAlloc ObjChannel, EvAlloc ObjResolver, EvResolverCreate True,
                EvRef ObjResolver, EvRef ObjFactory,
                EvFinishInitialization, EvUnref ObjResolver] @
               trace_of_cleanup False\<rparr>)"
  using run_live [where env = example_collaborators and creds = fragment_credentials
      and target = "''example.com:443''" and args = "Some example_base_config"
      and reserved = None and sc = 7
      and d = "Some [Arg ''grpc.primary_user_agent'' (ArgString ''derived'')]"]
  by (simp add: example_defs)

lemma example_run_two_connectors:
  "connector_naming_call =
    (Return (Some (live_channel ''example.com:443''
                     [Arg GRPC_SECURITY_CONNECTOR_ARG (ArgPointer (Some 9)),
                      Arg GRPC_SECURITY_CONNECTOR_ARG (ArgPointer (Some 7))] 7)),
     \<lparr>refs = (refs (initial_world (Some [])))
               (ObjChannel := 1, ObjResolver := 1, ObjFactory := 1,
                ObjSecurityConnector := 1),
       faults = [],
       trace = trace_until_factory (Some [])
                 (Some [Arg GRPC_SECURITY_CONNECTOR_ARG (ArgPointer (Some 9))]) 7 @
               [EvAlloc ObjChannel, EvAlloc ObjResolver, EvResolverCreate True,
                EvRef ObjResolver, EvRef ObjFactory,
                EvFinishInitialization, EvUnref ObjResolver] @
               trace_of_cleanup False\<rparr>)"
  using run_live [where env = example_collaborators and creds = connector_naming_credentials
      and target = "''example.com:443''" and args = "Some []"
      and reserved = None and sc = 7
      and d = "Some [Arg GRPC_SECURITY_CONNECTOR_ARG (ArgPointer (Some 9))]"]
  by (simp add: example_defs grpc_security_connector_to_arg_def)

lemma example_run_null_entry:
  "null_entry_call =
    (Return (Some (live_channel ''example.com:443''
                     [Arg GRPC_SECURITY_CONNECTOR_ARG (ArgPointer None),
                      grpc_security_connector_to_arg 7] 7)),
     \<lparr>refs = (refs (initial_world (Some null_entry_config)))
               (ObjChannel := 1, ObjResolver := 1, ObjFactory := 1,
                ObjSecurityConnector := 1),
       faults = [],
       trace = trace_until_factory (Some null_entry_config) None 7 @
               [EvAlloc ObjChannel, EvAlloc ObjResolver, EvResolverCreate True,
                EvRef ObjResolver, EvRef ObjFactory,
                EvFinishInitialization, EvUnref ObjResolver] @
               trace_of_cleanup False\<rparr>)"
  using run_live [where env = example_collaborators and creds = example_credentials
      and target = "''example.com:443''" and args = "Some null_entry_config"
      and reserved = None and sc = 7 and d = None]
  by (simp add: example_defs)

subsection \<open>What the trace says about the input\<close>

text \<open>The events that the properties below are stated on, in terms of the input: a failed
  connector creation, a failed resolver creation, and a connector creation that returned
  a derived configuration happen exactly on the calls that pass the assertion and the
  check of the caller's configuration, with credentials (and a registry) that answer so.\<close>

lemma connector_creation_fails_iff:
  "(EvCreateSecurityConnector GRPC_SECURITY_ERROR b
      \<in> set (trace (snd (grpc_secure_channel_create env creds target args reserved)))) =
   (reserved = None \<and> grpc_find_security_connector_in_args args = None \<and>
    (\<exists>e. creds target args = Inl e) \<and> \<not> b)"
proof (cases rule: run_cases [where reserved = reserved and args = args and creds = creds
      and target = target and env = env])
  case abort
  then show ?thesis by (auto simp: run_abort)
next
  case conflict
  then show ?thesis by (auto simp: run_conflict)
next
  case (connector_failed e)
  then show ?thesis by (auto simp: run_connector_failed)
next
  case (resolver_failed sc d)
  then show ?thesis by (auto simp: run_resolver_failed trace_defs)
next
  case (live sc d)
  then show ?thesis by (auto simp: run_live trace_defs)
qed

lemma resolver_creation_fails_iff:
  "(EvResolverCreate False
      \<in> set (trace (snd (grpc_secure_channel_create env creds target args reserved)))) =
   (reserved = None \<and> grpc_find_security_connector_in_args args = None \<and>
    (\<exists>sc d. creds target args = Inr (sc, d) \<and>
            \<not> resolver_registry env target (new_args_of args d sc)))"
proof (cases rule: run_cases [where reserved = reserved and args = args and creds = creds
      and target = target and env = env])
  case abort
  then show ?thesis by (auto simp: run_abort)
next
  case conflict
  then show ?thesis by (auto simp: run_conflict)
next
  case (connector_failed e)
  then show ?thesis by (auto simp: run_connector_failed)
next
  case (resolver_failed sc d)
  then show ?thesis by (auto simp: run_resolver_failed trace_defs)
next
  case (live sc d)
  then show ?thesis by (auto simp: run_live trace_defs)
qed

lemma derived_config_returned_iff:
  "(EvCreateSecurityConnector status True
      \<in> set (trace (snd (grpc_secure_channel_create env creds target args reserved)))) =
   (reserved = None \<and> grpc_find_security_connector_in_args args = None \<and>
    status = GRPC_SECURITY_OK \<and> (\<exists>sc a. creds target args = Inr (sc, Some a)))"
proof (cases rule: run_cases [where reserved = reserved and args = args and creds = creds
      and target = target and env = env])
  case abort
  then show ?thesis by (auto simp: run_abort)
next
  case conflict
  then show ?thesis by (auto simp: run_conflict)
next
  case (connector_failed e)
  then show ?thesis by (auto simp: run_connector_failed)
next
  case (resolver_failed sc d)
  then show ?thesis by (cases d) (auto simp: run_resolver_failed trace_defs)
next
  case (live sc d)
  then show ?thesis by (cases d) (auto simp: run_live trace_defs)
qed

section \<open>The claims\<close>

text \<open>C1 (amended). For every call with \<^verbatim>\<open>reserved == NULL\<close> whose channel args hold a
  security connector entry with a connector that is not \<^verbatim>\<open>NULL\<close>, so that
  \<^const>\<open>grpc_find_security_connector_in_args\<close> finds one,
  \<^const>\<open>grpc_secure_channel_create\<close> returns a lame channel with status
  \<^const>\<open>GRPC_STATUS_INTERNAL\<close> and the message "Security connector exists in channel
  args."; the connector creation step is not invoked and no security connector is
  constructed.\<close>

theorem conflicting_args_give_lame_channel:
  assumes "grpc_secure_channel_create env creds target args reserved = (result, w)"
    and "reserved = None"
    and "grpc_find_security_connector_in_args args \<noteq> None"
  shows "result = Return (Some (LameChannel target GRPC_STATUS_INTERNAL
                                  ''Security connector exists in channel args.'')) \<and>
         EvCreateSecurityConnector status b \<notin> set (trace w) \<and>
         EvAlloc ObjSecurityConnector \<notin> set (trace w) \<and>
         refs w ObjSecurityConnector = 0"
  using assms by (auto simp: run_conflict initial_refs)

text \<open>C1 as stated fails at two inputs whose args contain a security connector entry.
  When \<^verbatim>\<open>reserved\<close> is not \<^verbatim>\<open>NULL\<close> the call aborts in \<^verbatim>\<open>GPR_ASSERT\<close> instead of
  returning the lame channel. When the entry holds a \<^verbatim>\<open>NULL\<close> pointer the test of line
  128 passes: the connector is created and a live channel is returned, whose configuration
  has the caller's entry and the back-reference.\<close>

theorem conflicting_args_claim_fails:
  "grpc_find_security_connector_in_args (Some conflicting_config) \<noteq> None \<and>
   fst conflicting_call_reserved = Abort \<and>
   fst conflicting_call_reserved \<noteq>
     Return (Some (LameChannel ''example.com:443'' GRPC_STATUS_INTERNAL
                     ''Security connector exists in channel args.'')) \<and>
   security_state_entries null_entry_config = 1 \<and>
   fst null_entry_call =
     Return (Some (ClientChannel
       \<lparr>cc_target = ''example.com:443'',
        cc_args = [Arg GRPC_SECURITY_CONNECTOR_ARG (ArgPointer None),
                   Arg GRPC_SECURITY_CONNECTOR_ARG (ArgPointer (Some 7))],
        cc_stack_type = GRPC_CLIENT_CHANNEL,
        cc_resolvers = [Resolver ''example.com:443''
                          [Arg GRPC_SECURITY_CONNECTOR_ARG (ArgPointer None),
                           Arg GRPC_SECURITY_CONNECTOR_ARG (ArgPointer (Some 7))]],
        cc_factories = [\<lparr>security_connector = 7\<rparr>]\<rparr>)) \<and>
   EvCreateSecurityConnector GRPC_SECURITY_OK False \<in> set (trace (snd null_entry_call))"
  by (simp only: example_run_null_entry fst_conv snd_conv)
    (simp add: run_abort conflicting_config_found live_channel_def trace_defs
      security_state_entries_def null_entry_config_def grpc_security_connector_to_arg_def)

text \<open>The amended C1 at a configuration that names a connector.\<close>

theorem conflicting_args_give_lame_channel_witness:
  "grpc_find_security_connector_in_args (Some conflicting_config) \<noteq> None \<and>
   fst conflicting_call =
     Return (Some (LameChannel ''example.com:443'' GRPC_STATUS_INTERNAL
                     ''Security connector exists in channel args.'')) \<and>
   EvCreateSecurityConnector GRPC_SECURITY_OK False \<notin> set (trace (snd conflicting_call)) \<and>
   EvAlloc ObjSecurityConnector \<notin> set (trace (snd conflicting_call)) \<and>
   refs (snd conflicting_call) ObjSecurityConnector = 0"
  using conflicting_args_give_lame_channel
      [OF prod.collapse [symmetric] refl conflicting_config_found,
      where env = example_collaborators and creds = example_credentials
      and target = "''example.com:443''" and status = GRPC_SECURITY_OK and b = False]
  by (simp add: conflicting_config_found)

text \<open>C2. On every execution on which security connector creation fails,
  \<^const>\<open>grpc_secure_channel_create\<close> returns a lame channel with status
  \<^const>\<open>GRPC_STATUS_INTERNAL\<close> and the message "Failed to create security connector.", and
  no resolver is created on that execution: \<^verbatim>\<open>grpc_resolver_create\<close> is not called,
  with either result.\<close>

theorem connector_failure_gives_lame_channel_without_resolver:
  assumes "grpc_secure_channel_create env creds target args reserved = (result, w)"
    and "EvCreateSecurityConnector GRPC_SECURITY_ERROR b \<in> set (trace w)"
  shows "result = Return (Some (LameChannel target GRPC_STATUS_INTERNAL
                                  ''Failed to create security connector.'')) \<and>
         EvResolverCreate started \<notin> set (trace w) \<and>
         EvAlloc ObjResolver \<notin> set (trace w) \<and>
         refs w ObjResolver = 0"
proof (cases rule: run_cases [where reserved = reserved and args = args and creds = creds
      and target = target and env = env])
  case abort
  with assms show ?thesis by (auto simp: run_abort)
next
  case conflict
  with assms show ?thesis by (auto simp: run_conflict)
next
  case (connector_failed e)
  with assms show ?thesis by (auto simp: run_connector_failed initial_refs)
next
  case (resolver_failed sc d)
  with assms show ?thesis by (auto simp: run_resolver_failed trace_defs)
next
  case (live sc d)
  with assms show ?thesis by (auto simp: run_live trace_defs)
qed

text \<open>C2 at credentials that refuse the target.\<close>

theorem connector_failure_gives_lame_channel_without_resolver_witness:
  "EvCreateSecurityConnector GRPC_SECURITY_ERROR False \<in> set (trace (snd refused_call)) \<and>
   fst refused_call =
     Return (Some (LameChannel ''insecure'' GRPC_STATUS_INTERNAL
                     ''Failed to create security connector.'')) \<and>
   EvResolverCreate True \<notin> set (trace (snd refused_call)) \<and>
   EvAlloc ObjResolver \<notin> set (trace (snd refused_call)) \<and>
   refs (snd refused_call) ObjResolver = 0"
proof -
  have failed: "EvCreateSecurityConnector GRPC_SECURITY_ERROR False
                  \<in> set (trace (snd refused_call))"
    by (simp add: example_run_connector_failed)
  from connector_failure_gives_lame_channel_without_resolver
      [OF prod.collapse [symmetric] failed, where started = True] failed
  show ?thesis by simp
qed

text \<open>C3. Null is returned exactly on the executions on which resolver creation fails; on
  these, the partially built channel, the factory, the security connector and the merged
  configuration (and the connector's derived configuration) are all released: every count
  is zero, each object was destroyed or freed, and no release hit a dead object.\<close>

theorem resolver_failure_releases_all_and_returns_null:
  assumes "grpc_secure_channel_create env creds target args reserved = (result, w)"
  shows "(result = Return None \<longleftrightarrow> EvResolverCreate False \<in> set (trace w)) \<and>
         (EvResolverCreate False \<in> set (trace w) \<longrightarrow>
            refs w ObjChannel = 0 \<and> EvDestroy ObjChannel \<in> set (trace w) \<and>
            refs w ObjFactory = 0 \<and> EvFree ObjFactory \<in> set (trace w) \<and>
            refs w ObjSecurityConnector = 0 \<and>
            EvDestroy ObjSecurityConnector \<in> set (trace w) \<and>
            refs w ObjNewArgs = 0 \<and> EvArgsDestroy ObjNewArgs \<in> set (trace w) \<and>
            refs w ObjArgsFromConnector = 0 \<and> refs w ObjResolver = 0 \<and>
            refs w ObjLameChannel = 0 \<and> faults w = [])"
proof (cases rule: run_cases [where reserved = reserved and args = args and creds = creds
      and target = target and env = env])
  case abort
  with assms show ?thesis by (auto simp: run_abort)
next
  case conflict
  with assms show ?thesis by (auto simp: run_conflict)
next
  case (connector_failed e)
  with assms show ?thesis by (auto simp: run_connector_failed)
next
  case (resolver_failed sc d)
  with assms show ?thesis by (auto simp: run_resolver_failed trace_defs initial_refs)
next
  case (live sc d)
  with assms show ?thesis by (auto simp: run_live trace_defs)
qed

text \<open>C3 at a target the resolver registry does not know.\<close>

theorem resolver_failure_releases_all_and_returns_null_witness:
  "EvResolverCreate False \<in> set (trace (snd unresolvable_call)) \<and>
   fst unresolvable_call = Return None \<and>
   refs (snd unresolvable_call) ObjChannel = 0 \<and>
   refs (snd unresolvable_call) ObjFactory = 0 \<and>
   refs (snd unresolvable_call) ObjSecurityConnector = 0 \<and>
   refs (snd unresolvable_call) ObjNewArgs = 0 \<and>
   faults (snd unresolvable_call) = []"
proof -
  have failed: "EvResolverCreate False \<in> set (trace (snd unresolvable_call))"
    by (simp add: example_run_resolver_failed)
  from resolver_failure_releases_all_and_returns_null
      [OF prod.collapse [symmetric], of example_collaborators example_credentials
        "''unresolvable''" "Some []" None] failed
  show ?thesis by simp
qed

text \<open>C4 (amended). The merged configuration is a copy of exactly one source: the
  configuration derived by the connector creation step when it returned one, the caller's
  base configuration otherwise (nothing when that is \<^verbatim>\<open>NULL\<close>); base entries are not
  applied over a derived configuration. The security connector's back-reference entry is
  appended last, so the result has one security-state entry more than the copied source,
  and one entry naming a connector more: the back-reference is the only security-state
  entry exactly when the copied source has none. The check of line 128 leaves a copied
  base configuration without entry that names a connector, but lets entries under the key
  with a \<^verbatim>\<open>NULL\<close> pointer through; so with the base as the source the back-reference is
  the only entry that names a connector. A live channel is built on this
  configuration.\<close>

theorem merged_config_copies_one_source_and_appends:
  assumes "grpc_secure_channel_create env creds target args reserved = (result, w)"
    and "reserved = None"
    and "grpc_find_security_connector_in_args args = None"
    and "creds target args = Inr (sc, d)"
  shows "merged_configs (trace w) = [new_args_of args d sc] \<and>
         new_args_of args d sc =
           (case d of
              Some derived \<Rightarrow> derived
            | None \<Rightarrow> (case args of Some base \<Rightarrow> base | None \<Rightarrow> [])) @
           [grpc_security_connector_to_arg sc] \<and>
         last (new_args_of args d sc) = grpc_security_connector_to_arg sc \<and>
         security_state_entries (new_args_of args d sc) =
           security_state_entries
             (case d of
                Some derived \<Rightarrow> derived
              | None \<Rightarrow> (case args of Some base \<Rightarrow> base | None \<Rightarrow> [])) + 1 \<and>
         connector_entries (new_args_of args d sc) =
           (case d of Some derived \<Rightarrow> connector_entries derived | None \<Rightarrow> 0) + 1 \<and>
         (case result of
            Return (Some (ClientChannel c)) \<Rightarrow> cc_args c = new_args_of args d sc
          | Return (Some (LameChannel t s m)) \<Rightarrow> False
          | Return None \<Rightarrow> True
          | Abort \<Rightarrow> False)"
proof -
  have shape: "new_args_of args d sc =
           (case d of
              Some derived \<Rightarrow> derived
            | None \<Rightarrow> (case args of Some base \<Rightarrow> base | None \<Rightarrow> [])) @
           [grpc_security_connector_to_arg sc]"
    by (simp add: new_args_of_def split: option.splits)
  have entries: "security_state_entries (new_args_of args d sc) =
           security_state_entries
             (case d of
                Some derived \<Rightarrow> derived
              | None \<Rightarrow> (case args of Some base \<Rightarrow> base | None \<Rightarrow> [])) + 1"
    by (simp add: shape security_state_entries_snoc)
  have named: "connector_entries (new_args_of args d sc) =
           (case d of Some derived \<Rightarrow> connector_entries derived | None \<Rightarrow> 0) + 1"
    using assms(3)
    by (auto simp: shape connector_entries_snoc connector_entries_Nil
        find_security_connector_none_iff grpc_find_security_connector_in_args_def
        split: option.splits)
  have run: "merged_configs (trace w) = [new_args_of args d sc] \<and>
         (case result of
            Return (Some (ClientChannel c)) \<Rightarrow> cc_args c = new_args_of args d sc
          | Return (Some (LameChannel t s m)) \<Rightarrow> False
          | Return None \<Rightarrow> True
          | Abort \<Rightarrow> False)"
  proof (cases "resolver_registry env target (new_args_of args d sc)")
    case True
    with assms show ?thesis
      by (auto simp: run_live trace_defs merged_configs_append merged_configs_replicate_ref
          live_channel_def)
  next
    case False
    with assms show ?thesis
      by (auto simp: run_resolver_failed trace_defs merged_configs_append)
  qed
  from shape entries named run show ?thesis by simp
qed

text \<open>C4 as stated fails at two inputs. With a base configuration of two entries and
  credentials that derive a configuration for one of the two keys, the merged
  configuration is the derived entry and the back-reference: the base value does not
  override the derived one, and the other base entry is absent. With a base configuration
  whose entry under the key holds a \<^verbatim>\<open>NULL\<close> pointer, the base is copied and the
  back-reference is the second security-state entry of the result, not the only one.\<close>

theorem base_entries_absent_from_merged_config:
  "fragment_credentials ''example.com:443'' (Some example_base_config) =
     Inr (7, Some [Arg ''grpc.primary_user_agent'' (ArgString ''derived'')]) \<and>
   merged_configs (trace (snd fragment_call)) =
     [[Arg ''grpc.primary_user_agent'' (ArgString ''derived''),
       grpc_security_connector_to_arg 7]] \<and>
   args_lookup example_base_config ''grpc.primary_user_agent'' = Some (ArgString ''base'') \<and>
   args_lookup (hd (merged_configs (trace (snd fragment_call))))
      ''grpc.primary_user_agent'' = Some (ArgString ''derived'') \<and>
   Arg ''grpc.max_receive_message_length'' (ArgInteger 4096) \<in> set example_base_config \<and>
   Arg ''grpc.max_receive_message_length'' (ArgInteger 4096)
     \<notin> set (hd (merged_configs (trace (snd fragment_call)))) \<and>
   merged_configs (trace (snd null_entry_call)) =
     [[Arg GRPC_SECURITY_CONNECTOR_ARG (ArgPointer None),
       Arg GRPC_SECURITY_CONNECTOR_ARG (ArgPointer (Some 7))]] \<and>
   security_state_entries (hd (merged_configs (trace (snd null_entry_call)))) = 2"
  by (simp only: example_run_fragment example_run_null_entry snd_conv)
    (simp add: trace_defs example_defs args_lookup_def grpc_security_connector_to_arg_def
      security_state_entries_def)

text \<open>The amended C4 at the first of the two inputs.\<close>

theorem merged_config_copies_one_source_and_appends_witness:
  "grpc_find_security_connector_in_args (Some example_base_config) = None \<and>
   fragment_credentials ''example.com:443'' (Some example_base_config) =
     Inr (7, Some [Arg ''grpc.primary_user_agent'' (ArgString ''derived'')]) \<and>
   merged_configs (trace (snd fragment_call)) =
     [[Arg ''grpc.primary_user_agent'' (ArgString ''derived''),
       grpc_security_connector_to_arg 7]] \<and>
   security_state_entries
     [Arg ''grpc.primary_user_agent'' (ArgString ''derived''),
      grpc_security_connector_to_arg 7] = 1 \<and>
   connector_entries
     [Arg ''grpc.primary_user_agent'' (ArgString ''derived''),
      grpc_security_connector_to_arg 7] = 1"
proof -
  have free: "grpc_find_security_connector_in_args (Some example_base_config) = None"
    by (simp add: example_defs GRPC_SECURITY_CONNECTOR_ARG_def)
  have valid: "fragment_credentials ''example.com:443'' (Some example_base_config) =
     Inr (7, Some [Arg ''grpc.primary_user_agent'' (ArgString ''derived'')])"
    by (simp add: example_defs)
  from merged_config_copies_one_source_and_appends
      [where creds = fragment_credentials and target = "''example.com:443''"
      and args = "Some example_base_config" and env = example_collaborators,
      OF prod.collapse [symmetric] refl free valid]
    free valid
  show ?thesis
    by (simp add: new_args_of_def security_state_entries_def connector_entries_def
        names_connector_def GRPC_SECURITY_CONNECTOR_ARG_def)
qed

text \<open>C5. In every terminal state of \<^const>\<open>grpc_secure_channel_create\<close> the references are
  balanced: no release ever hit a dead object, the caller's configuration is untouched,
  the derived and the merged configuration are freed, and the security connector's count is
  exactly the one reference held by the factory while the factory lives (none otherwise).
  After a successful return the channel has the caller's reference, and the resolver and
  the factory have the references the channel stack kept; on every other return the
  channel, the resolver and the factory are dead.\<close>

theorem references_balanced_in_every_terminal_state:
  assumes "grpc_secure_channel_create env creds target args reserved = (result, w)"
  shows "faults w = [] \<and>
         refs w ObjCallerArgs = refs (initial_world args) ObjCallerArgs \<and>
         refs w ObjArgsFromConnector = 0 \<and>
         refs w ObjNewArgs = 0 \<and>
         refs w ObjSecurityConnector = (if live w ObjFactory then 1 else 0) \<and>
         (case result of
            Return (Some (ClientChannel c)) \<Rightarrow>
              refs w ObjChannel = 1 \<and>
              refs w ObjResolver = stack_resolver_refs env \<and>
              refs w ObjFactory = stack_factory_refs env \<and>
              refs w ObjLameChannel = 0
          | Return (Some (LameChannel t s m)) \<Rightarrow>
              refs w ObjLameChannel = 1 \<and> refs w ObjChannel = 0 \<and>
              refs w ObjResolver = 0 \<and> refs w ObjFactory = 0
          | Return None \<Rightarrow>
              refs w ObjLameChannel = 0 \<and> refs w ObjChannel = 0 \<and>
              refs w ObjResolver = 0 \<and> refs w ObjFactory = 0
          | Abort \<Rightarrow>
              refs w ObjLameChannel = 0 \<and> refs w ObjChannel = 0 \<and>
              refs w ObjResolver = 0 \<and> refs w ObjFactory = 0)"
proof (cases rule: run_cases [where reserved = reserved and args = args and creds = creds
      and target = target and env = env])
  case abort
  with assms show ?thesis by (auto simp: run_abort initial_refs live_def)
next
  case conflict
  with assms show ?thesis by (auto simp: run_conflict initial_refs live_def)
next
  case (connector_failed e)
  with assms show ?thesis by (auto simp: run_connector_failed initial_refs live_def)
next
  case (resolver_failed sc d)
  with assms show ?thesis by (auto simp: run_resolver_failed initial_refs live_def)
next
  case (live sc d)
  with assms show ?thesis by (auto simp: run_live initial_refs live_def live_channel_def)
qed

text \<open>C5 at a successful construction.\<close>

theorem references_balanced_in_every_terminal_state_witness:
  "faults (snd example_call) = [] \<and>
   refs (snd example_call) ObjSecurityConnector = 1 \<and>
   live (snd example_call) ObjFactory \<and>
   refs (snd example_call) ObjFactory = 1 \<and>
   refs (snd example_call) ObjChannel = 1 \<and>
   refs (snd example_call) ObjNewArgs = 0"
  using references_balanced_in_every_terminal_state
      [OF prod.collapse [symmetric], of example_collaborators example_credentials
        "''example.com:443''" "Some []" None]
  by (simp add: example_run_live live_def initial_refs)

text \<open>C6 (amended). With \<^verbatim>\<open>reserved == NULL\<close>, a base configuration without security-state
  entry (empty or \<^verbatim>\<open>NULL\<close> included), credentials for which connector creation succeeds
  with a derived configuration (if any) that has no security-state entry, and a target the
  resolver registry resolves, \<^const>\<open>grpc_secure_channel_create\<close> returns a live channel
  whose configuration has exactly one security-state entry, which names a connector, and
  which is bound to exactly one resolver.\<close>

theorem valid_inputs_give_live_channel:
  assumes "grpc_secure_channel_create env creds target args reserved = (result, w)"
    and "reserved = None"
    and "security_state_entries (args_entries args) = 0"
    and "creds target args = Inr (sc, d)"
    and "security_state_entries (args_entries d) = 0"
    and "resolver_registry env target (new_args_of args d sc)"
  shows "\<exists>c. result = Return (Some (ClientChannel c)) \<and>
             cc_target c = target \<and>
             cc_args c = new_args_of args d sc \<and>
             security_state_entries (cc_args c) = 1 \<and>
             connector_entries (cc_args c) = 1 \<and>
             cc_resolvers c = [Resolver target (cc_args c)] \<and>
             count_list (trace w) EvFinishInitialization = 1"
proof -
  have free: "grpc_find_security_connector_in_args args = None"
    using assms(3) by (rule security_state_free_not_found)
  have one: "security_state_entries (new_args_of args d sc) = 1"
    using assms(3,5)
    by (auto simp: new_args_of_def security_state_entries_snoc args_entries_def
        split: option.splits)
  have "connector_entries (new_args_of args d sc) = 1"
  proof -
    have "connector_entries (new_args_of args d sc) \<le> 1"
      using connector_entries_le [of "new_args_of args d sc"] one by simp
    moreover have "1 \<le> connector_entries (new_args_of args d sc)"
      by (simp add: new_args_of_def connector_entries_snoc)
    ultimately show ?thesis by simp
  qed
  with assms(1,2,4,6) free one show ?thesis
    by (auto simp: run_live live_channel_def trace_defs count_list_replicate_other)
qed

text \<open>C6 as stated fails at two inputs with valid credentials, a resolvable target and an
  empty base configuration: with \<^verbatim>\<open>reserved\<close> not \<^verbatim>\<open>NULL\<close> the call aborts; and with
  credentials whose derived configuration already names a security connector the live
  channel's configuration has two security-state entries.\<close>

theorem live_channel_claim_fails:
  "fst example_call_reserved = Abort \<and>
   fst connector_naming_call =
     Return (Some (ClientChannel
       \<lparr>cc_target = ''example.com:443'',
        cc_args = [Arg GRPC_SECURITY_CONNECTOR_ARG (ArgPointer (Some 9)),
                   Arg GRPC_SECURITY_CONNECTOR_ARG (ArgPointer (Some 7))],
        cc_stack_type = GRPC_CLIENT_CHANNEL,
        cc_resolvers = [Resolver ''example.com:443''
                          [Arg GRPC_SECURITY_CONNECTOR_ARG (ArgPointer (Some 9)),
                           Arg GRPC_SECURITY_CONNECTOR_ARG (ArgPointer (Some 7))]],
        cc_factories = [\<lparr>security_connector = 7\<rparr>]\<rparr>)) \<and>
   security_state_entries [Arg GRPC_SECURITY_CONNECTOR_ARG (ArgPointer (Some 9)),
                           Arg GRPC_SECURITY_CONNECTOR_ARG (ArgPointer (Some 7))] = 2"
  by (simp add: run_abort example_run_two_connectors live_channel_def
      security_state_entries_def)

text \<open>The amended C6 at the target \<^verbatim>\<open>example.com:443\<close> with an empty configuration.\<close>

theorem valid_inputs_give_live_channel_witness:
  "security_state_entries (args_entries (Some [])) = 0 \<and>
   example_credentials ''example.com:443'' (Some []) = Inr (7, None) \<and>
   security_state_entries (args_entries None) = 0 \<and>
   resolver_registry example_collaborators ''example.com:443'' (new_args_of (Some []) None 7) \<and>
   (\<exists>c. fst example_call = Return (Some (ClientChannel c)) \<and>
        cc_target c = ''example.com:443'' \<and>
        cc_args c = new_args_of (Some []) None 7 \<and>
        security_state_entries (cc_args c) = 1 \<and>
        connector_entries (cc_args c) = 1 \<and>
        cc_resolvers c = [Resolver ''example.com:443'' (cc_args c)] \<and>
        count_list (trace (snd example_call)) EvFinishInitialization = 1)"
proof -
  have free: "security_state_entries (args_entries (Some [])) = 0"
    by (simp add: args_entries_def security_state_entries_def)
  have valid: "example_credentials ''example.com:443'' (Some []) = Inr (7, None)"
    by (simp add: example_defs)
  have fragment: "security_state_entries (args_entries None) = 0"
    by (simp add: args_entries_def security_state_entries_def)
  have resolvable:
    "resolver_registry example_collaborators ''example.com:443'' (new_args_of (Some []) None 7)"
    by (simp add: example_collaborators_def)
  from valid_inputs_give_live_channel
      [where creds = example_credentials and target = "''example.com:443''"
      and args = "Some []" and env = example_collaborators,
      OF prod.collapse [symmetric] refl free valid fragment resolvable]
    free valid fragment resolvable
  show ?thesis by simp
qed

text \<open>C7. \<^const>\<open>client_channel_factory_create_subchannel\<close> has no error branch: in every
  world and for every subchannel args it returns the subchannel built on a transport
  connector for the args' server name, whose handshaker installer adds the security
  handshaker of the factory's security connector; it raises no fault.\<close>

theorem create_subchannel_always_returns_subchannel:
  "fst (client_channel_factory_create_subchannel env f args w) =
     Some \<lparr>sub_connector =
             \<lparr>conn_server_name = server_name args,
              conn_add_handshakers = add_handshakers (security_connector f)\<rparr>,
           sub_create_args = args\<rparr> \<and>
   add_handshakers (security_connector f) handshake_mgr =
     handshake_mgr @ [SecurityHandshaker (security_connector f)] \<and>
   faults (snd (client_channel_factory_create_subchannel env f args w)) = faults w \<and>
   refs (snd (client_channel_factory_create_subchannel env f args w)) ObjSubchannel = 1"
  by (cases w) (simp add: create_subchannel_closed add_handshakers_def
      grpc_channel_security_connector_add_handshakers_def)

text \<open>C7 at a factory holding connector 7.\<close>

theorem create_subchannel_always_returns_subchannel_witness:
  "fst example_subchannel_call =
     Some \<lparr>sub_connector =
             \<lparr>conn_server_name = ''example.com'',
              conn_add_handshakers = add_handshakers 7\<rparr>,
           sub_create_args = \<lparr>server_name = ''example.com'', sub_args = []\<rparr>\<rparr> \<and>
   add_handshakers 7 [] = [SecurityHandshaker 7] \<and>
   faults (snd example_subchannel_call) = []"
  using create_subchannel_always_returns_subchannel
      [of example_collaborators "\<lparr>security_connector = 7\<rparr>"
      "\<lparr>server_name = ''example.com'', sub_args = []\<rparr>" "initial_world None" "[]"]
  by (simp add: initial_world_def)

text \<open>C8. \<^const>\<open>grpc_secure_channel_create\<close> aborts in \<^verbatim>\<open>GPR_ASSERT\<close> exactly when
  \<^verbatim>\<open>reserved\<close> is not \<^verbatim>\<open>NULL\<close>, before any other step; it returns a channel pointer
  (lame, live or null) exactly when \<^verbatim>\<open>reserved\<close> is \<^verbatim>\<open>NULL\<close>.\<close>

theorem abort_iff_reserved_not_null:
  "(fst (grpc_secure_channel_create env creds target args reserved) = Abort) =
     (reserved \<noteq> None) \<and>
   (EvAssertFailed \<in> set (trace (snd (grpc_secure_channel_create env creds target args reserved)))) =
     (reserved \<noteq> None) \<and>
   (trace (snd (grpc_secure_channel_create env creds target args reserved)) =
      [EvApiTrace, EvAssertFailed]) =
     (reserved \<noteq> None) \<and>
   (\<exists>channel. fst (grpc_secure_channel_create env creds target args reserved) = Return channel) =
     (reserved = None)"
proof (cases rule: run_cases [where reserved = reserved and args = args and creds = creds
      and target = target and env = env])
  case abort
  then show ?thesis by (auto simp: run_abort)
next
  case conflict
  then show ?thesis by (auto simp: run_conflict)
next
  case (connector_failed e)
  then show ?thesis by (auto simp: run_connector_failed)
next
  case (resolver_failed sc d)
  then show ?thesis by (auto simp: run_resolver_failed trace_defs)
next
  case (live sc d)
  then show ?thesis by (auto simp: run_live trace_defs)
qed

text \<open>C8 at a call with a reserved pointer and at one without.\<close>

theorem abort_iff_reserved_not_null_witness:
  "fst example_call_reserved = Abort \<and>
   EvAssertFailed \<in> set (trace (snd example_call_reserved)) \<and>
   trace (snd example_call_reserved) = [EvApiTrace, EvAssertFailed] \<and>
   (\<exists>channel. fst example_call = Return channel)"
  using
    abort_iff_reserved_not_null
      [of example_collaborators example_credentials "''example.com:443''" "Some []" "Some 1"]
    abort_iff_reserved_not_null
      [of example_collaborators example_credentials "''example.com:443''" "Some []" None]
  by auto

text \<open>C9. Every call of \<^const>\<open>client_channel_factory_create_subchannel\<close> creates one
  transport connector and releases it exactly once before returning. The connector is left
  with the references the subchannel took for itself, and is destroyed by that release
  exactly when the subchannel took none.\<close>

theorem create_subchannel_releases_connector_once:
  "count_list (trace (snd (client_channel_factory_create_subchannel env f args w)))
     (EvUnref ObjConnector) = count_list (trace w) (EvUnref ObjConnector) + 1 \<and>
   count_list (trace (snd (client_channel_factory_create_subchannel env f args w)))
     (EvAlloc ObjConnector) = count_list (trace w) (EvAlloc ObjConnector) + 1 \<and>
   refs (snd (client_channel_factory_create_subchannel env f args w)) ObjConnector =
     subchannel_connector_refs env \<and>
   (EvDestroy ObjConnector \<in>
      set (drop (length (trace w))
             (trace (snd (client_channel_factory_create_subchannel env f args w))))) =
     (subchannel_connector_refs env = 0) \<and>
   faults (snd (client_channel_factory_create_subchannel env f args w)) = faults w"
  by (cases w) (simp add: create_subchannel_closed count_list_replicate_other)

text \<open>C9 at a subchannel that keeps one reference on its connector.\<close>

theorem create_subchannel_releases_connector_once_witness:
  "count_list (trace (snd example_subchannel_call)) (EvUnref ObjConnector) = 1 \<and>
   count_list (trace (snd example_subchannel_call)) (EvAlloc ObjConnector) = 1 \<and>
   refs (snd example_subchannel_call) ObjConnector = 1 \<and>
   faults (snd example_subchannel_call) = []"
  using create_subchannel_releases_connector_once
      [of example_collaborators "\<lparr>security_connector = 7\<rparr>"
      "\<lparr>server_name = ''example.com'', sub_args = []\<rparr>" "initial_world None"]
  by (simp add: initial_world_def example_collaborators_def)

text \<open>C10. Whenever the connector creation step returns a derived configuration,
  \<^const>\<open>grpc_secure_channel_create\<close> destroys it exactly once, and that is the step right
  after the one merge of the run: nothing comes between the two, and the block is freed
  when the call returns, on the null path as on the live one.\<close>

theorem derived_args_destroyed_right_after_merge:
  assumes "grpc_secure_channel_create env creds target args reserved = (result, w)"
    and "EvCreateSecurityConnector status True \<in> set (trace w)"
  shows "(\<exists>pre m post.
            trace w = pre @ [EvCopyAndAdd m, EvArgsDestroy ObjArgsFromConnector] @ post \<and>
            merged_configs pre = [] \<and>
            EvArgsDestroy ObjArgsFromConnector \<notin> set pre \<and>
            EvArgsDestroy ObjArgsFromConnector \<notin> set post) \<and>
         count_list (trace w) (EvArgsDestroy ObjArgsFromConnector) = 1 \<and>
         refs w ObjArgsFromConnector = 0 \<and>
         faults w = []"
proof (cases rule: run_cases [where reserved = reserved and args = args and creds = creds
      and target = target and env = env])
  case abort
  with assms show ?thesis by (auto simp: run_abort)
next
  case conflict
  with assms show ?thesis by (auto simp: run_conflict)
next
  case (connector_failed e)
  with assms show ?thesis by (auto simp: run_connector_failed)
next
  case (resolver_failed sc d)
  with assms obtain a where d: "d = Some a"
    by (cases d) (auto simp: run_resolver_failed trace_defs)
  from assms resolver_failed have w: "w = \<lparr>refs = refs (initial_world args), faults = [],
       trace = trace_until_factory args d sc @
               [EvAlloc ObjChannel, EvResolverCreate False, EvUnref ObjChannel,
                EvDestroy ObjChannel] @ trace_of_cleanup True\<rparr>"
    by (simp add: run_resolver_failed)
  have "trace w =
     [EvApiTrace, EvAlloc ObjSecurityConnector, EvAlloc ObjArgsFromConnector,
      EvCreateSecurityConnector GRPC_SECURITY_OK True, EvAlloc ObjNewArgs] @
     [EvCopyAndAdd (new_args_of args (Some a) sc), EvArgsDestroy ObjArgsFromConnector] @
     ([EvAlloc ObjFactory, EvRef ObjSecurityConnector] @
      [EvAlloc ObjChannel, EvResolverCreate False, EvUnref ObjChannel,
                EvDestroy ObjChannel] @ trace_of_cleanup True)"
    by (simp add: w d trace_until_factory_Some)
  moreover have "count_list (trace w) (EvArgsDestroy ObjArgsFromConnector) = 1"
    by (simp add: w d trace_defs)
  moreover have "refs w ObjArgsFromConnector = 0 \<and> faults w = []"
    by (simp add: w initial_refs)
  ultimately show ?thesis
    by (intro conjI exI [where x = "[EvApiTrace, EvAlloc ObjSecurityConnector,
      EvAlloc ObjArgsFromConnector, EvCreateSecurityConnector GRPC_SECURITY_OK True,
      EvAlloc ObjNewArgs]"] exI [where x = "new_args_of args (Some a) sc"]
      exI [where x = "[EvAlloc ObjFactory, EvRef ObjSecurityConnector] @
      [EvAlloc ObjChannel, EvResolverCreate False, EvUnref ObjChannel,
                EvDestroy ObjChannel] @ trace_of_cleanup True"])
      (simp_all add: trace_of_cleanup_def)
next
  case (live sc d)
  with assms obtain a where d: "d = Some a"
    by (cases d) (auto simp: run_live trace_defs)
  define post where "post = [EvAlloc ObjFactory, EvRef ObjSecurityConnector] @
               [EvAlloc ObjChannel, EvAlloc ObjResolver, EvResolverCreate True] @
               replicate (stack_resolver_refs env) (EvRef ObjResolver) @
               replicate (stack_factory_refs env) (EvRef ObjFactory) @
               [EvFinishInitialization, EvUnref ObjResolver] @
               (if stack_resolver_refs env = 0 then [EvDestroy ObjResolver] else []) @
               trace_of_cleanup (stack_factory_refs env = 0)"
  from assms live have w: "refs w ObjArgsFromConnector = 0 \<and> faults w = []"
    and tr: "trace w = trace_until_factory args d sc @
               [EvAlloc ObjChannel, EvAlloc ObjResolver, EvResolverCreate True] @
               replicate (stack_resolver_refs env) (EvRef ObjResolver) @
               replicate (stack_factory_refs env) (EvRef ObjFactory) @
               [EvFinishInitialization, EvUnref ObjResolver] @
               (if stack_resolver_refs env = 0 then [EvDestroy ObjResolver] else []) @
               trace_of_cleanup (stack_factory_refs env = 0)"
    by (auto simp: run_live initial_refs)
  have "trace w =
     [EvApiTrace, EvAlloc ObjSecurityConnector, EvAlloc ObjArgsFromConnector,
      EvCreateSecurityConnector GRPC_SECURITY_OK True, EvAlloc ObjNewArgs] @
     [EvCopyAndAdd (new_args_of args (Some a) sc), EvArgsDestroy ObjArgsFromConnector] @
     post"
    by (simp add: tr d trace_until_factory_Some post_def)
  moreover have "count_list (trace w) (EvArgsDestroy ObjArgsFromConnector) = 1"
    by (simp add: tr d trace_defs count_list_replicate_other)
  moreover have "EvArgsDestroy ObjArgsFromConnector \<notin> set post"
    by (simp add: post_def trace_of_cleanup_def)
  ultimately show ?thesis using w
    by (intro conjI exI [where x = "[EvApiTrace, EvAlloc ObjSecurityConnector,
      EvAlloc ObjArgsFromConnector, EvCreateSecurityConnector GRPC_SECURITY_OK True,
      EvAlloc ObjNewArgs]"] exI [where x = "new_args_of args (Some a) sc"]
      exI [where x = post]) simp_all
qed

text \<open>C10 at credentials that derive a configuration.\<close>

theorem derived_args_destroyed_right_after_merge_witness:
  "EvCreateSecurityConnector GRPC_SECURITY_OK True \<in> set (trace (snd fragment_call)) \<and>
   count_list (trace (snd fragment_call)) (EvArgsDestroy ObjArgsFromConnector) = 1 \<and>
   refs (snd fragment_call) ObjArgsFromConnector = 0 \<and>
   faults (snd fragment_call) = []"
proof -
  have returned: "EvCreateSecurityConnector GRPC_SECURITY_OK True
                    \<in> set (trace (snd fragment_call))"
    by (simp add: example_run_fragment trace_defs)
  from derived_args_destroyed_right_after_merge [OF prod.collapse [symmetric] returned] returned
  show ?thesis by simp
qed

end
